theory Spec2Isabelle
  imports Main
begin

section \<open>The algebra practice module\<close>

text \<open>
  The development follows \<^verbatim>\<open>client/src/components/algebra/AlgebraModule.tsx\<close>.
  The component keeps five pieces of state (the five \<^verbatim>\<open>useState\<close> hooks) and three
  handlers change them: \<^verbatim>\<open>handleAnswerChange\<close>, \<^verbatim>\<open>checkAnswer\<close> and \<^verbatim>\<open>nextProblem\<close>,
  besides the inline handler of the hint button. Each handler is modelled as a function
  from the state before the event to the state after it; a toast shown by a handler is
  returned next to the new state.
\<close>

subsection \<open>Problems and the component state\<close>

text \<open>
  The numbers the component handles are the results of \<^verbatim>\<open>parseInt\<close> and the answer of a
  problem: \<^verbatim>\<open>NaN\<close>, the two infinities, and doubles whose value is an integer (the two
  zeros are one value here; \<^verbatim>\<open>===\<close> does not tell them apart).
\<close>

datatype number = NaN | PlusInfinity | MinusInfinity | Finite int

text \<open>
  The conversion of a mathematical integer to a number: the nearest double, a tie going
  to the even significand of 53 bits, and an infinity from \<open>2^1024\<close> on.
\<close>

fun bitLength :: "nat \<Rightarrow> nat" where
  "bitLength n = (if n = 0 then 0 else Suc (bitLength (n div 2)))"

declare bitLength.simps [simp del]

definition roundSignificand :: "nat \<Rightarrow> nat" where
  "roundSignificand n =
     (if n < 2 ^ 53 then n
      else
        (let e = bitLength n - 53;
             q = n div 2 ^ e;
             r = n mod 2 ^ e;
             half = 2 ^ (e - 1)
         in (if half < r \<or> (r = half \<and> odd q) then q + 1 else q) * 2 ^ e))"

definition toNumber :: "int \<Rightarrow> number" where
  "toNumber i =
     (let m = roundSignificand (nat \<bar>i\<bar>)
      in if 2 ^ 1024 \<le> m then (if i < 0 then MinusInfinity else PlusInfinity)
         else Finite (if i < 0 then - int m else int m))"

definition isNaN :: "number \<Rightarrow> bool" where
  "isNaN x = (x = NaN)"

text \<open>
  The type of a problem is declared in \<^verbatim>\<open>@/lib/algebraProblems\<close>, which is not among
  the sources. The component reads three of its fields: \<^verbatim>\<open>answer\<close> (compared with the
  parsed input), \<^verbatim>\<open>hint\<close> and \<^verbatim>\<open>detailedHint\<close> (displayed). It never writes a field of
  a problem. The answer is a JavaScript number holding an integer: its type is the type
  of the integers that a double holds exactly, those that the conversion leaves as they
  are.
\<close>

definition isDouble :: "int \<Rightarrow> bool" where
  "isDouble i = (toNumber i = Finite i)"

typedef integerNumber = "{i :: int. isDouble i}"
  morphisms intOf numberOf
proof
  show "0 \<in> {i :: int. isDouble i}"
    by (simp add: isDouble_def toNumber_def roundSignificand_def Let_def)
qed

record problem =
  answer :: integerNumber
  hint :: string
  detailedHint :: string

record session =
  currentProblem :: problem
  userAnswer :: string
  showFeedback :: bool
  isCorrect :: bool
  showHints :: bool

text \<open>
  \<^verbatim>\<open>generateAlgebraProblem\<close> is imported from \<^verbatim>\<open>@/lib/algebraProblems\<close> and called with
  the level only. Its body is not among the sources, so it is a parameter of the model:
  a function of the level and of the state \<open>'r\<close> of whatever random source it reads
  when it is called.
\<close>

type_synonym 'r generator = "int \<Rightarrow> 'r \<Rightarrow> problem"

text \<open>A toast, as passed to \<^verbatim>\<open>toast({ title, description, variant })\<close>.\<close>

record toast =
  title :: string
  description :: string
  variant :: string

subsection \<open>The built-in \<^verbatim>\<open>parseInt(string, 10)\<close> and decimal rendering\<close>

text \<open>
  \<^verbatim>\<open>parseInt\<close> with radix 10, after ECMAScript: leading white space is skipped, one
  sign is read, then the longest run of decimal digits; an empty run gives \<^verbatim>\<open>NaN\<close>
  and whatever follows the digits is ignored. The result is the number nearest to the
  integer that the sign and the digits denote. Characters are the code units below 256,
  of which the white space and line terminator characters are TAB, LF, VT, FF, CR, SP
  and NBSP. ECMAScript allows an implementation to read the digits after the twentieth
  significant one as zeros; the model reads every digit.
\<close>

definition isWhiteSpace :: "char \<Rightarrow> bool" where
  "isWhiteSpace c = (of_char c \<in> {9, 10, 11, 12, 13, 32, 160 :: nat})"

definition isDigit :: "char \<Rightarrow> bool" where
  "isDigit c = (48 \<le> (of_char c :: nat) \<and> (of_char c :: nat) \<le> 57)"

definition digitValue :: "char \<Rightarrow> nat" where
  "digitValue c = of_char c - 48"

definition mathInt :: "string \<Rightarrow> nat" where
  "mathInt Z = foldl (\<lambda>a c. 10 * a + digitValue c) 0 Z"

definition parseInt :: "string \<Rightarrow> number" where
  "parseInt inputString =
     (let S = dropWhile isWhiteSpace inputString;
          sign = (if S \<noteq> [] \<and> hd S = CHR ''-'' then - 1 else 1);
          S' = (if S \<noteq> [] \<and> (hd S = CHR ''+'' \<or> hd S = CHR ''-'') then tl S else S);
          Z = takeWhile isDigit S'
      in if Z = [] then NaN else toNumber (sign * int (mathInt Z)))"

text \<open>
  The decimal rendering \<open>str\<close> of an integer, as the specification's properties use it:
  a minus sign for a negative number, then the digits without leading zeros.
\<close>

definition digitChar :: "nat \<Rightarrow> char" where
  "digitChar d = char_of (48 + d)"

fun digits :: "nat \<Rightarrow> string" where
  "digits n = (if n < 10 then [digitChar n] else digits (n div 10) @ [digitChar (n mod 10)])"

declare digits.simps [simp del]

definition str :: "int \<Rightarrow> string" where
  "str i = (if i < 0 then CHR ''-'' # digits (nat (- i)) else digits (nat i))"

text \<open>
  What the specification calls an input that is parseable as an integer, read as a
  property of the whole text: an optional sign followed by one or more decimal digits
  and nothing else.
\<close>

definition integerText :: "string \<Rightarrow> bool" where
  "integerText x =
     (let body = (if x \<noteq> [] \<and> (hd x = CHR ''+'' \<or> hd x = CHR ''-'') then tl x else x)
      in body \<noteq> [] \<and> list_all isDigit body)"

text \<open>
  What \<^verbatim>\<open>parseInt\<close> needs instead: a decimal digit right after the leading white space
  and the optional sign.
\<close>

definition leadingInteger :: "string \<Rightarrow> bool" where
  "leadingInteger x =
     (let S = dropWhile isWhiteSpace x;
          S' = (if S \<noteq> [] \<and> (hd S = CHR ''+'' \<or> hd S = CHR ''-'') then tl S else S)
      in S' \<noteq> [] \<and> isDigit (hd S'))"

subsection \<open>The handlers\<close>

definition missingAnswerToast :: toast where
  "missingAnswerToast =
     \<lparr>title = ''Don't forget to answer!'',
      description = ''Type a number in the answer box'',
      variant = ''destructive''\<rparr>"

definition notANumberToast :: toast where
  "notANumberToast =
     \<lparr>title = ''That's not a number'',
      description = ''Please type a number in the answer box'',
      variant = ''destructive''\<rparr>"

definition greatJobToast :: toast where
  "greatJobToast =
     \<lparr>title = ''Great job!'',
      description = ''Your answer is correct!'',
      variant = ''default''\<rparr>"

definition notQuiteRightToast :: toast where
  "notQuiteRightToast =
     \<lparr>title = ''Not quite right'',
      description = ''Try again or check the hint'',
      variant = ''destructive''\<rparr>"

definition handleAnswerChange :: "string \<Rightarrow> session \<Rightarrow> session" where
  "handleAnswerChange v s = s\<lparr>userAnswer := v\<rparr>"

definition checkAnswer :: "session \<Rightarrow> toast \<times> session" where
  "checkAnswer s =
     (if userAnswer s = [] then (missingAnswerToast, s)
      else
        (let parsedAnswer = parseInt (userAnswer s)
         in if isNaN parsedAnswer then (notANumberToast, s)
            else
              (let correct = (parsedAnswer = Finite (intOf (answer (currentProblem s))));
                   s' = s\<lparr>isCorrect := correct, showFeedback := True\<rparr>
               in (if correct then greatJobToast else notQuiteRightToast, s'))))"

definition nextProblem :: "'r generator \<Rightarrow> 'r \<Rightarrow> session \<Rightarrow> session" where
  "nextProblem generateAlgebraProblem r s =
     s\<lparr>currentProblem := generateAlgebraProblem 1 r,
       userAnswer := [],
       showFeedback := False,
       showHints := False\<rparr>"

definition toggleHints :: "session \<Rightarrow> session" where
  "toggleHints s = s\<lparr>showHints := \<not> showHints s\<rparr>"

text \<open>The state the component is mounted with.\<close>

definition initial :: "'r generator \<Rightarrow> 'r \<Rightarrow> session" where
  "initial generateAlgebraProblem r =
     \<lparr>currentProblem = generateAlgebraProblem 1 r,
      userAnswer = [],
      showFeedback = False,
      isCorrect = False,
      showHints = False\<rparr>"

subsection \<open>What the rendered controls allow\<close>

text \<open>
  The \<^verbatim>\<open>disabled\<close> attributes of the answer input and of the Check button, and the
  events the rendered page can deliver. A disabled control delivers no event; the
  feedback panel, which carries \<^verbatim>\<open>onNextChallenge={nextProblem}\<close>, is rendered only
  while \<^verbatim>\<open>showFeedback\<close> holds. The \<open>Next\<close> event carries the state of the
  generator's random source at the moment of the call.
\<close>

definition inputDisabled :: "session \<Rightarrow> bool" where
  "inputDisabled s = (showFeedback s \<and> isCorrect s)"

definition checkDisabled :: "session \<Rightarrow> bool" where
  "checkDisabled s = (showFeedback s \<and> isCorrect s)"

datatype 'r event = AnswerChange string | Check | Next 'r | ToggleHints

fun isNext :: "'r event \<Rightarrow> bool" where
  "isNext (Next r) = True"
| "isNext e = False"

fun step :: "'r generator \<Rightarrow> session \<Rightarrow> 'r event \<Rightarrow> session" where
  "step g s (AnswerChange v) = (if inputDisabled s then s else handleAnswerChange v s)"
| "step g s Check = (if checkDisabled s then s else snd (checkAnswer s))"
| "step g s (Next r) = (if showFeedback s then nextProblem g r s else s)"
| "step g s ToggleHints = toggleHints s"

definition run :: "'r generator \<Rightarrow> session \<Rightarrow> 'r event list \<Rightarrow> session" where
  "run g s evs = foldl (step g) s evs"

text \<open>
  The states of the specification's session state machine, read off the component
  state: feedback showing a correct or an incorrect answer, and otherwise an empty or
  a filled answer box.
\<close>

datatype phase = Idle | AnswerEntered | Correct | Incorrect

definition phaseOf :: "session \<Rightarrow> phase" where
  "phaseOf s =
     (if showFeedback s then (if isCorrect s then Correct else Incorrect)
      else if userAnswer s = [] then Idle else AnswerEntered)"

section \<open>Numbers\<close>

text \<open>
  Integers below \<open>2^53\<close> in absolute value are numbers as they are, and so is \<open>2^53\<close>;
  \<open>2^53 + 1\<close> is the first integer that is not, it becomes \<open>2^53\<close>.
\<close>

lemma toNumber_below: "\<bar>i\<bar> < 2 ^ 53 \<Longrightarrow> toNumber i = Finite i"
proof -
  assume a: "\<bar>i\<bar> < 2 ^ 53"
  then have n: "nat \<bar>i\<bar> < 2 ^ 53" by (simp add: nat_less_iff)
  have "(2::nat) ^ 53 < 2 ^ 1024" by simp
  with n have "\<not> (2::nat) ^ 1024 \<le> nat \<bar>i\<bar>" by linarith
  with n show ?thesis by (simp add: toNumber_def roundSignificand_def Let_def)
qed

lemma toNumber_two_53: "toNumber 9007199254740992 = Finite 9007199254740992"
  by (simp add: toNumber_def roundSignificand_def bitLength.simps Let_def)

lemma toNumber_two_53_plus_1: "toNumber 9007199254740993 = Finite 9007199254740992"
  by (simp add: toNumber_def roundSignificand_def bitLength.simps Let_def)

lemma toNumber_not_NaN: "toNumber i \<noteq> NaN"
  by (simp add: toNumber_def Let_def)

lemma isDouble_safe: "\<bar>i\<bar> < 2 ^ 53 \<Longrightarrow> isDouble i"
  by (simp add: isDouble_def toNumber_below)

lemma isDouble_two_53: "isDouble 9007199254740992"
  by (simp add: isDouble_def toNumber_two_53)

lemma not_isDouble_two_53_plus_1: "\<not> isDouble 9007199254740993"
  by (simp add: isDouble_def toNumber_two_53_plus_1)

lemma intOf_numberOf: "isDouble i \<Longrightarrow> intOf (numberOf i) = i"
  by (simp add: numberOf_inverse)

lemma toNumber_intOf: "toNumber (intOf a) = Finite (intOf a)"
  using intOf [of a] by (simp add: isDouble_def)

section \<open>Parsing a decimal rendering\<close>

lemma isDigit_digitChar: "d < 10 \<Longrightarrow> isDigit (digitChar d)"
  by (simp add: isDigit_def digitChar_def)

lemma digitValue_digitChar: "d < 10 \<Longrightarrow> digitValue (digitChar d) = d"
  by (simp add: digitValue_def digitChar_def)

lemma digits_not_Nil: "digits n \<noteq> []"
  by (subst digits.simps) simp

lemma digits_all_isDigit: "\<forall>c \<in> set (digits n). isDigit c"
proof (induction n rule: digits.induct)
  case (1 n)
  show ?case
  proof (cases "n < 10")
    case True
    then show ?thesis by (subst digits.simps) (simp add: isDigit_digitChar)
  next
    case False
    with 1 show ?thesis by (subst digits.simps) (simp add: isDigit_digitChar)
  qed
qed

lemma mathInt_snoc: "mathInt (Z @ [c]) = 10 * mathInt Z + digitValue c"
  by (simp add: mathInt_def)

lemma mathInt_digits: "mathInt (digits n) = n"
proof (induction n rule: digits.induct)
  case (1 n)
  show ?case
  proof (cases "n < 10")
    case True
    then show ?thesis by (subst digits.simps) (simp add: mathInt_def digitValue_digitChar)
  next
    case False
    with 1 have "mathInt (digits (n div 10)) = n div 10" by simp
    with False show ?thesis
      by (subst digits.simps) (simp add: mathInt_snoc digitValue_digitChar)
  qed
qed

lemma isDigit_not_isWhiteSpace: "isDigit c \<Longrightarrow> \<not> isWhiteSpace c"
  by (auto simp: isDigit_def isWhiteSpace_def)

lemma isDigit_not_sign: "isDigit c \<Longrightarrow> c \<noteq> CHR ''+'' \<and> c \<noteq> CHR ''-''"
  by (auto simp: isDigit_def)

lemma hd_digits_isDigit: "isDigit (hd (digits n))"
  using digits_all_isDigit [of n] digits_not_Nil [of n] by (cases "digits n") auto

lemma parseInt_digits: "parseInt (digits n) = toNumber (int n)"
proof -
  have ws: "dropWhile isWhiteSpace (digits n) = digits n"
    using hd_digits_isDigit [of n] digits_not_Nil [of n]
    by (cases "digits n") (auto dest: isDigit_not_isWhiteSpace)
  have tw: "takeWhile isDigit (digits n) = digits n"
    using digits_all_isDigit [of n] by simp
  show ?thesis
    using hd_digits_isDigit [of n] isDigit_not_sign [of "hd (digits n)"] digits_not_Nil [of n]
    by (simp add: parseInt_def ws tw mathInt_digits Let_def)
qed

lemma parseInt_minus_digits: "parseInt (CHR ''-'' # digits n) = toNumber (- int n)"
proof -
  have tw: "takeWhile isDigit (digits n) = digits n"
    using digits_all_isDigit [of n] by simp
  have "\<not> isWhiteSpace CHR ''-''" by (simp add: isWhiteSpace_def)
  then show ?thesis
    using digits_not_Nil [of n]
    by (simp add: parseInt_def tw mathInt_digits Let_def)
qed

lemma parseInt_str: "parseInt (str i) = toNumber i"
  by (simp add: str_def parseInt_digits parseInt_minus_digits)

lemma str_not_Nil: "str i \<noteq> []"
  by (simp add: str_def digits_not_Nil)

lemma parseInt_NaN_iff: "parseInt x = NaN \<longleftrightarrow> \<not> leadingInteger x"
  by (simp add: parseInt_def leadingInteger_def Let_def takeWhile_eq_Nil_iff toNumber_not_NaN)

lemma digitChar_simps:
  "digitChar 0 = CHR ''0''" "digitChar (Suc 0) = CHR ''1''" "digitChar 2 = CHR ''2''"
  "digitChar 3 = CHR ''3''" "digitChar 4 = CHR ''4''" "digitChar 5 = CHR ''5''"
  "digitChar 6 = CHR ''6''" "digitChar 7 = CHR ''7''" "digitChar 8 = CHR ''8''"
  "digitChar 9 = CHR ''9''"
  by code_simp+

lemmas parseInt_eval = parseInt_def isWhiteSpace_def isDigit_def mathInt_def digitValue_def

lemma str_two_53_plus_1: "str 9007199254740993 = ''9007199254740993''"
  by (simp add: str_def digits.simps digitChar_simps)

lemma parseInt_two_53_plus_1: "parseInt ''9007199254740993'' = Finite 9007199254740992"
  using toNumber_two_53_plus_1 by (simp add: parseInt_eval)

section \<open>The answer check\<close>

text \<open>
  The specification's \<^verbatim>\<open>evaluate(rawInput, problem)\<close> is \<^verbatim>\<open>checkAnswer\<close> run in a state
  whose \<^verbatim>\<open>userAnswer\<close> is the raw input and whose \<^verbatim>\<open>currentProblem\<close> is the problem.
  Its failure \<^verbatim>\<open>MissingAnswer\<close> is the branch that shows \<open>missingAnswerToast\<close>, its
  failure \<^verbatim>\<open>NotANumber\<close> the branch that shows \<open>notANumberToast\<close>; the field
  \<^verbatim>\<open>correct\<close> of its result is the value stored in \<^verbatim>\<open>isCorrect\<close>, and \<^verbatim>\<open>parsedValue\<close>
  is the value of \<^verbatim>\<open>parsedAnswer\<close>.
\<close>

lemma toasts_distinct:
  "missingAnswerToast \<noteq> notANumberToast"
  "greatJobToast \<noteq> notANumberToast"
  "notQuiteRightToast \<noteq> notANumberToast"
  "greatJobToast \<noteq> missingAnswerToast"
  "notQuiteRightToast \<noteq> missingAnswerToast"
  "greatJobToast \<noteq> notQuiteRightToast"
  by (simp_all add: missingAnswerToast_def notANumberToast_def greatJobToast_def
      notQuiteRightToast_def)

lemma checkAnswer_parsed:
  "userAnswer s \<noteq> [] \<Longrightarrow> parseInt (userAnswer s) = Finite v \<Longrightarrow>
   checkAnswer s =
     (if v = intOf (answer (currentProblem s)) then greatJobToast else notQuiteRightToast,
      s\<lparr>isCorrect := (v = intOf (answer (currentProblem s))), showFeedback := True\<rparr>)"
  by (simp add: checkAnswer_def isNaN_def Let_def)

lemma checkAnswer_fst_cases:
  "fst (checkAnswer s) =
     (if userAnswer s = [] then missingAnswerToast
      else if parseInt (userAnswer s) = NaN then notANumberToast
      else if parseInt (userAnswer s) = Finite (intOf (answer (currentProblem s)))
        then greatJobToast else notQuiteRightToast)"
  by (simp add: checkAnswer_def isNaN_def Let_def)

lemma checkAnswer_currentProblem: "currentProblem (snd (checkAnswer s)) = currentProblem s"
  by (simp add: checkAnswer_def Let_def)

text \<open>
  A non-empty input is answered with the not-a-number toast exactly when it has no
  leading integer.
\<close>

lemma checkAnswer_notANumber_toast_iff:
  "userAnswer s \<noteq> [] \<Longrightarrow>
   (fst (checkAnswer s) = notANumberToast) = (\<not> leadingInteger (userAnswer s))"
  by (simp add: checkAnswer_fst_cases parseInt_NaN_iff toasts_distinct)

lemma intOf_7: "intOf (numberOf 7) = 7"
  by (simp add: intOf_numberOf isDouble_safe)

lemma intOf_3: "intOf (numberOf 3) = 3"
  by (simp add: intOf_numberOf isDouble_safe)

lemma intOf_two_53: "intOf (numberOf 9007199254740992) = 9007199254740992"
  by (simp add: intOf_numberOf isDouble_two_53)

text \<open>
  Claim C1. For every problem \<open>P\<close>, and whatever the rest of the state, checking the
  decimal rendering of \<open>P\<close>'s answer reports a correct result: \<^verbatim>\<open>parseInt\<close> gives the
  answer back, \<^verbatim>\<open>isCorrect\<close> is set to true, the feedback is shown and the toast is
  the congratulation.
\<close>

theorem checkAnswer_own_answer_correct:
  "checkAnswer (s\<lparr>currentProblem := P, userAnswer := str (intOf (answer P))\<rparr>)
     = (greatJobToast,
        s\<lparr>currentProblem := P, userAnswer := str (intOf (answer P)),
          isCorrect := True, showFeedback := True\<rparr>)
   \<and> parseInt (str (intOf (answer P))) = Finite (intOf (answer P))"
  by (simp add: checkAnswer_parsed parseInt_str toNumber_intOf str_not_Nil)

text \<open>
  Claim C5, as the code has it. For every problem \<open>P\<close> whose answer is below \<open>2^53\<close> in
  absolute value, checking the decimal rendering of the answer plus one parses to that
  number and reports an incorrect result: \<^verbatim>\<open>isCorrect\<close> is set to false and the toast
  is the corrective one.
\<close>

theorem checkAnswer_successor_incorrect:
  "\<bar>intOf (answer P)\<bar> < 2 ^ 53 \<Longrightarrow>
   checkAnswer (s\<lparr>currentProblem := P, userAnswer := str (intOf (answer P) + 1)\<rparr>)
     = (notQuiteRightToast,
        s\<lparr>currentProblem := P, userAnswer := str (intOf (answer P) + 1),
          isCorrect := False, showFeedback := True\<rparr>)
   \<and> parseInt (str (intOf (answer P) + 1)) = Finite (intOf (answer P) + 1)"
proof -
  assume a: "\<bar>intOf (answer P)\<bar> < 2 ^ 53"
  have "toNumber (intOf (answer P) + 1) = Finite (intOf (answer P) + 1)"
  proof (cases "intOf (answer P) + 1 = 9007199254740992")
    case True
    then show ?thesis by (simp add: toNumber_two_53)
  next
    case False
    with a have "\<bar>intOf (answer P) + 1\<bar> < 2 ^ 53" by simp
    then show ?thesis by (rule toNumber_below)
  qed
  then have p: "parseInt (str (intOf (answer P) + 1)) = Finite (intOf (answer P) + 1)"
    by (simp add: parseInt_str)
  then show ?thesis
    by (simp add: checkAnswer_parsed str_not_Nil)
qed

text \<open>
  An instance of the theorem for C5: for a problem with answer 7 the input \<open>''8''\<close> is
  reported incorrect.
\<close>

theorem checkAnswer_successor_incorrect_witness:
  "\<bar>intOf (answer \<lparr>answer = numberOf 7, hint = [], detailedHint = []\<rparr>)\<bar> < 2 ^ 53
   \<and> str (intOf (answer \<lparr>answer = numberOf 7, hint = [], detailedHint = []\<rparr>) + 1) = ''8''
   \<and> checkAnswer 
       \<lparr>currentProblem = \<lparr>answer = numberOf 7, hint = [], detailedHint = []\<rparr>,
         userAnswer = ''8'', showFeedback = False, isCorrect = False, showHints = False\<rparr> = (notQuiteRightToast, 
       \<lparr>currentProblem = \<lparr>answer = numberOf 7, hint = [], detailedHint = []\<rparr>,
         userAnswer = ''8'', showFeedback = True, isCorrect = False, showHints = False\<rparr>)"
proof -
  have s8: "str 8 = ''8''" by (simp add: str_def digits.simps digitChar_simps)
  have b: "\<bar>intOf (answer \<lparr>answer = numberOf 7, hint = [], detailedHint = []\<rparr>)\<bar> < 2 ^ 53" by (simp add: intOf_7)
  show ?thesis
    using checkAnswer_successor_incorrect [OF b, of "
        \<lparr>currentProblem = \<lparr>answer = numberOf 7, hint = [], detailedHint = []\<rparr>,
          userAnswer = [], showFeedback = False, isCorrect = False, showHints = False\<rparr>"]
    by (simp add: intOf_7 s8)
qed

text \<open>
  Claim C5, as it is written, fails. For a problem whose answer is \<open>2^53\<close>, the decimal
  rendering of the answer plus one is \<open>''9007199254740993''\<close>; \<^verbatim>\<open>parseInt\<close> rounds it
  to \<open>2^53\<close>, the answer itself, and the check reports a correct result.
\<close>

theorem checkAnswer_successor_counterexample:
  "intOf (answer \<lparr>answer = numberOf 9007199254740992, hint = [], detailedHint = []\<rparr>) = 9007199254740992
   \<and> str (intOf (answer \<lparr>answer = numberOf 9007199254740992, hint = [], detailedHint = []\<rparr>) + 1) = ''9007199254740993''
   \<and> parseInt ''9007199254740993'' = Finite 9007199254740992
   \<and> checkAnswer 
       \<lparr>currentProblem = \<lparr>answer = numberOf 9007199254740992, hint = [], detailedHint = []\<rparr>,
         userAnswer = ''9007199254740993'', showFeedback = False, isCorrect = False, showHints = False\<rparr> = (greatJobToast, 
       \<lparr>currentProblem = \<lparr>answer = numberOf 9007199254740992, hint = [], detailedHint = []\<rparr>,
         userAnswer = ''9007199254740993'', showFeedback = True, isCorrect = True, showHints = False\<rparr>)"
proof -
  have c: "checkAnswer 
      \<lparr>currentProblem = \<lparr>answer = numberOf 9007199254740992, hint = [], detailedHint = []\<rparr>,
        userAnswer = ''9007199254740993'', showFeedback = False, isCorrect = False, showHints = False\<rparr> = (greatJobToast, 
      \<lparr>currentProblem = \<lparr>answer = numberOf 9007199254740992, hint = [], detailedHint = []\<rparr>,
        userAnswer = ''9007199254740993'', showFeedback = True, isCorrect = True, showHints = False\<rparr>)"
    by (simp add: intOf_two_53 checkAnswer_parsed parseInt_two_53_plus_1)
  show ?thesis
    using c by (simp add: intOf_two_53 str_two_53_plus_1 parseInt_two_53_plus_1)
qed

text \<open>
  Claim C3. For every problem \<open>P\<close>, checking the empty input shows the missing-answer
  toast and changes nothing. The empty input has no number in it either
  (\<open>parseInt [] = NaN\<close>), so it is the order of the two tests that makes the result
  the missing-answer toast and not the not-a-number toast, which is a different toast.
\<close>

theorem checkAnswer_empty_missing:
  "checkAnswer (s\<lparr>currentProblem := P, userAnswer := []\<rparr>)
     = (missingAnswerToast, s\<lparr>currentProblem := P, userAnswer := []\<rparr>)
   \<and> missingAnswerToast \<noteq> notANumberToast
   \<and> parseInt [] = NaN"
  by (simp add: checkAnswer_def toasts_distinct parseInt_def)

text \<open>
  Claim C2 at the input \<open>''3.5''\<close>. The input is not empty and is not the text of an
  integer, but \<^verbatim>\<open>parseInt\<close> reads the \<open>3\<close> and stops at the point: for a problem whose
  answer is 3 the check does not take the not-a-number branch, it shows the
  congratulation and stores a correct result.
\<close>

theorem checkAnswer_accepts_decimal_text:
  "''3.5'' \<noteq> []
   \<and> \<not> integerText ''3.5''
   \<and> parseInt ''3.5'' = Finite 3
   \<and> checkAnswer 
       \<lparr>currentProblem = \<lparr>answer = numberOf 3, hint = [], detailedHint = []\<rparr>,
         userAnswer = ''3.5'', showFeedback = False, isCorrect = False, showHints = False\<rparr> = (greatJobToast, 
       \<lparr>currentProblem = \<lparr>answer = numberOf 3, hint = [], detailedHint = []\<rparr>,
         userAnswer = ''3.5'', showFeedback = True, isCorrect = True, showHints = False\<rparr>)
   \<and> greatJobToast \<noteq> notANumberToast"
proof -
  have p: "parseInt ''3.5'' = Finite 3" by (simp add: parseInt_eval toNumber_below)
  have i: "\<not> integerText ''3.5''" by (simp add: integerText_def isDigit_def)
  have c: "checkAnswer 
      \<lparr>currentProblem = \<lparr>answer = numberOf 3, hint = [], detailedHint = []\<rparr>,
        userAnswer = ''3.5'', showFeedback = False, isCorrect = False, showHints = False\<rparr> = (greatJobToast, 
      \<lparr>currentProblem = \<lparr>answer = numberOf 3, hint = [], detailedHint = []\<rparr>,
        userAnswer = ''3.5'', showFeedback = True, isCorrect = True, showHints = False\<rparr>)"
    by (simp add: checkAnswer_parsed p intOf_3)
  show ?thesis
    using p i c by (simp add: toasts_distinct)
qed

text \<open>
  Claim C4. The check shows one of the two error toasts exactly when the input is
  empty or \<^verbatim>\<open>parseInt\<close> finds no number in it, and whenever it shows one of them, it
  returns the state it was given: \<^verbatim>\<open>currentProblem\<close>, \<^verbatim>\<open>userAnswer\<close>, \<^verbatim>\<open>isCorrect\<close>,
  \<^verbatim>\<open>showFeedback\<close> and \<^verbatim>\<open>showHints\<close> are all unchanged.
\<close>

theorem checkAnswer_error_keeps_state:
  "((userAnswer s = [] \<or> parseInt (userAnswer s) = NaN)
      = (fst (checkAnswer s) = missingAnswerToast \<or> fst (checkAnswer s) = notANumberToast))
   \<and> (fst (checkAnswer s) = missingAnswerToast \<or> fst (checkAnswer s) = notANumberToast
        \<longrightarrow> snd (checkAnswer s) = s)"
proof -
  have a: "(userAnswer s = [] \<or> parseInt (userAnswer s) = NaN)
      = (fst (checkAnswer s) = missingAnswerToast \<or> fst (checkAnswer s) = notANumberToast)"
    by (simp add: checkAnswer_fst_cases toasts_distinct)
  have b: "userAnswer s = [] \<or> parseInt (userAnswer s) = NaN \<Longrightarrow> snd (checkAnswer s) = s"
    by (auto simp: checkAnswer_def isNaN_def)
  from a b show ?thesis by blast
qed

text \<open>
  An instance of the theorem for C4: with the input \<open>''abc''\<close> the check shows the
  not-a-number toast and returns the state unchanged.
\<close>

theorem checkAnswer_error_keeps_state_witness:
  "fst (checkAnswer 
      \<lparr>currentProblem = \<lparr>answer = numberOf 7, hint = [], detailedHint = []\<rparr>,
        userAnswer = ''abc'', showFeedback = True, isCorrect = False, showHints = True\<rparr>) = notANumberToast
   \<and> snd (checkAnswer 
       \<lparr>currentProblem = \<lparr>answer = numberOf 7, hint = [], detailedHint = []\<rparr>,
         userAnswer = ''abc'', showFeedback = True, isCorrect = False, showHints = True\<rparr>) = 
       \<lparr>currentProblem = \<lparr>answer = numberOf 7, hint = [], detailedHint = []\<rparr>,
         userAnswer = ''abc'', showFeedback = True, isCorrect = False, showHints = True\<rparr>"
proof -
  have p: "parseInt ''abc'' = NaN" by (simp add: parseInt_eval)
  show ?thesis
    using p checkAnswer_error_keeps_state [of "
        \<lparr>currentProblem = \<lparr>answer = numberOf 7, hint = [], detailedHint = []\<rparr>,
          userAnswer = ''abc'', showFeedback = True, isCorrect = False, showHints = True\<rparr>"]
    by (simp add: checkAnswer_fst_cases)
qed

section \<open>The session state machine\<close>

lemma step_locked:
  "showFeedback s \<Longrightarrow> isCorrect s \<Longrightarrow> \<not> isNext e \<Longrightarrow> \<exists>h. step g s e = s\<lparr>showHints := h\<rparr>"
proof (cases e)
  case ToggleHints
  then show ?thesis by (auto simp: toggleHints_def)
next
  case (AnswerChange v)
  assume "showFeedback s" "isCorrect s"
  with AnswerChange have "step g s e = s\<lparr>showHints := showHints s\<rparr>"
    by (simp add: inputDisabled_def)
  then show ?thesis by blast
next
  case Check
  assume "showFeedback s" "isCorrect s"
  with Check have "step g s e = s\<lparr>showHints := showHints s\<rparr>"
    by (simp add: checkDisabled_def)
  then show ?thesis by blast
next
  case (Next r)
  assume "\<not> isNext e"
  with Next show ?thesis by simp
qed

lemma run_locked:
  "showFeedback s \<Longrightarrow> isCorrect s \<Longrightarrow> \<forall>e \<in> set evs. \<not> isNext e \<Longrightarrow>
   \<exists>h. run g s evs = s\<lparr>showHints := h\<rparr>"
proof (induction evs arbitrary: s)
  case Nil
  have "run g s [] = s\<lparr>showHints := showHints s\<rparr>" by (simp add: run_def)
  then show ?case by blast
next
  case (Cons e evs)
  from Cons.prems obtain h where st: "step g s e = s\<lparr>showHints := h\<rparr>"
    using step_locked [of s e g] by auto
  have "showFeedback (s\<lparr>showHints := h\<rparr>)" and "isCorrect (s\<lparr>showHints := h\<rparr>)"
    using Cons.prems by simp_all
  with Cons.IH [of "s\<lparr>showHints := h\<rparr>"] Cons.prems(3)
  obtain h' where "run g (s\<lparr>showHints := h\<rparr>) evs = s\<lparr>showHints := h, showHints := h'\<rparr>"
    by auto
  with st have "run g s (e # evs) = s\<lparr>showHints := h'\<rparr>" by (simp add: run_def)
  then show ?case by blast
qed

lemma phaseOf_Correct: "(phaseOf s = Correct) = (showFeedback s \<and> isCorrect s)"
  by (simp add: phaseOf_def)

lemma phaseOf_Incorrect: "(phaseOf s = Incorrect) = (showFeedback s \<and> \<not> isCorrect s)"
  by (simp add: phaseOf_def)

lemma retry_step:
  "\<not> isCorrect t \<Longrightarrow>
   step g (step g t (AnswerChange v)) Check = snd (checkAnswer (t\<lparr>userAnswer := v\<rparr>))"
  by (simp add: inputDisabled_def checkDisabled_def handleAnswerChange_def)

lemma checkAnswer_right_text:
  "checkAnswer (t\<lparr>userAnswer := str (intOf (answer (currentProblem t)))\<rparr>)
     = (greatJobToast,
        t\<lparr>userAnswer := str (intOf (answer (currentProblem t))),
          isCorrect := True, showFeedback := True\<rparr>)"
  by (simp add: checkAnswer_parsed parseInt_str toNumber_intOf str_not_Nil)

text \<open>
  Claim C6. The check never changes the current problem. From a state that shows
  feedback for a correct answer, every sequence of events without a \<open>Next\<close> leaves the
  problem, the answer text and the feedback as they are and both controls disabled
  (only the hint panel can still be toggled), and a \<open>Next\<close> enables the controls
  again. When the state after a check shows feedback for an incorrect answer, both
  controls are enabled and a click on Check runs \<^verbatim>\<open>checkAnswer\<close> again; typing a new
  text \<open>v\<close> and clicking Check runs \<^verbatim>\<open>checkAnswer\<close> on \<open>v\<close> against the same problem,
  and when \<open>v\<close> is the rendering of the answer this retry stores a correct result and
  reaches the \<open>Correct\<close> state.
\<close>

theorem correct_locks_incorrect_retries:
  "currentProblem (snd (checkAnswer s)) = currentProblem s
   \<and> (phaseOf s = Correct \<and> (\<forall>e \<in> set evs. \<not> isNext e) \<longrightarrow>
        phaseOf (run g s evs) = Correct
        \<and> inputDisabled (run g s evs) \<and> checkDisabled (run g s evs)
        \<and> currentProblem (run g s evs) = currentProblem s
        \<and> userAnswer (run g s evs) = userAnswer s)
   \<and> (phaseOf s = Correct \<longrightarrow>
        \<not> inputDisabled (step g s (Next r)) \<and> \<not> checkDisabled (step g s (Next r)))
   \<and> (phaseOf (snd (checkAnswer s)) = Incorrect \<longrightarrow>
        \<not> inputDisabled (snd (checkAnswer s)) \<and> \<not> checkDisabled (snd (checkAnswer s))
        \<and> step g (snd (checkAnswer s)) (AnswerChange v)
            = handleAnswerChange v (snd (checkAnswer s))
        \<and> step g (snd (checkAnswer s)) Check = snd (checkAnswer (snd (checkAnswer s)))
        \<and> currentProblem (step g (snd (checkAnswer s)) Check) = currentProblem s
        \<and> step g (step g (snd (checkAnswer s)) (AnswerChange v)) Check
            = snd (checkAnswer ((snd (checkAnswer s))\<lparr>userAnswer := v\<rparr>))
        \<and> currentProblem (step g (step g (snd (checkAnswer s)) (AnswerChange v)) Check)
            = currentProblem s
        \<and> step g (step g (snd (checkAnswer s))
              (AnswerChange (str (intOf (answer (currentProblem s)))))) Check
            = (snd (checkAnswer s))
                \<lparr>userAnswer := str (intOf (answer (currentProblem s))),
                 isCorrect := True, showFeedback := True\<rparr>
        \<and> phaseOf (step g (step g (snd (checkAnswer s))
              (AnswerChange (str (intOf (answer (currentProblem s)))))) Check) = Correct)"
proof (intro conjI impI)
  show "currentProblem (snd (checkAnswer s)) = currentProblem s"
    by (rule checkAnswer_currentProblem)
next
  assume a: "phaseOf s = Correct \<and> (\<forall>e \<in> set evs. \<not> isNext e)"
  then obtain h where r: "run g s evs = s\<lparr>showHints := h\<rparr>"
    using run_locked [of s evs g] by (auto simp: phaseOf_Correct)
  from a have c: "showFeedback s \<and> isCorrect s" by (simp add: phaseOf_Correct)
  from r c show "phaseOf (run g s evs) = Correct" by (simp add: phaseOf_Correct)
  from r c show "inputDisabled (run g s evs)" by (simp add: inputDisabled_def)
  from r c show "checkDisabled (run g s evs)" by (simp add: checkDisabled_def)
  from r show "currentProblem (run g s evs) = currentProblem s" by simp
  from r show "userAnswer (run g s evs) = userAnswer s" by simp
next
  assume "phaseOf s = Correct"
  then have c: "showFeedback s" by (simp add: phaseOf_Correct)
  then show "\<not> inputDisabled (step g s (Next r))"
    by (simp add: inputDisabled_def nextProblem_def)
  from c show "\<not> checkDisabled (step g s (Next r))"
    by (simp add: checkDisabled_def nextProblem_def)
next
  let ?t = "snd (checkAnswer s)"
  let ?a = "str (intOf (answer (currentProblem s)))"
  assume "phaseOf ?t = Incorrect"
  then have i: "\<not> isCorrect ?t" by (simp add: phaseOf_Incorrect)
  have cp: "currentProblem ?t = currentProblem s" by (rule checkAnswer_currentProblem)
  from i show "\<not> inputDisabled ?t" by (simp add: inputDisabled_def)
  from i show "\<not> checkDisabled ?t" by (simp add: checkDisabled_def)
  from i show "step g ?t (AnswerChange v) = handleAnswerChange v ?t"
    by (simp add: inputDisabled_def)
  from i show "step g ?t Check = snd (checkAnswer ?t)"
    by (simp add: checkDisabled_def)
  from i show "currentProblem (step g ?t Check) = currentProblem s"
    by (simp add: checkDisabled_def checkAnswer_currentProblem)
  from i show re: "step g (step g ?t (AnswerChange v)) Check
      = snd (checkAnswer (?t\<lparr>userAnswer := v\<rparr>))"
    by (rule retry_step)
  have "currentProblem (snd (checkAnswer (?t\<lparr>userAnswer := v\<rparr>))) = currentProblem s"
    using checkAnswer_currentProblem [of "?t\<lparr>userAnswer := v\<rparr>"] cp by simp
  with re show "currentProblem (step g (step g ?t (AnswerChange v)) Check) = currentProblem s"
    by simp
  have "step g (step g ?t (AnswerChange ?a)) Check = snd (checkAnswer (?t\<lparr>userAnswer := ?a\<rparr>))"
    using i by (rule retry_step)
  moreover have "checkAnswer (?t\<lparr>userAnswer := ?a\<rparr>)
      = (greatJobToast, ?t\<lparr>userAnswer := ?a, isCorrect := True, showFeedback := True\<rparr>)"
    using checkAnswer_right_text [of ?t] cp by simp
  ultimately show fin: "step g (step g ?t (AnswerChange ?a)) Check
      = ?t\<lparr>userAnswer := ?a, isCorrect := True, showFeedback := True\<rparr>"
    by simp
  then show "phaseOf (step g (step g ?t (AnswerChange ?a)) Check) = Correct"
    by (simp add: phaseOf_Correct)
qed

text \<open>
  Instances of the theorem for C6. In a state showing a correct answer to a problem
  with answer 7, typing, clicking Check and toggling the hints only opens the hint
  panel. After the incorrect input \<open>''4''\<close> the Check button is enabled; the retry
  \<open>''9''\<close> is checked and found incorrect, the retry \<open>''7''\<close> is checked and found
  correct, both on the same problem.
\<close>

theorem correct_locks_incorrect_retries_witness:
  "phaseOf 
      \<lparr>currentProblem = \<lparr>answer = numberOf 7, hint = [], detailedHint = []\<rparr>,
        userAnswer = ''7'', showFeedback = True, isCorrect = True, showHints = False\<rparr> = Correct
   \<and> \<not> isNext (AnswerChange ''9'' :: int event)
   \<and> \<not> isNext (Check :: int event)
   \<and> \<not> isNext (ToggleHints :: int event)
   \<and> run (\<lambda>level r. \<lparr>answer = numberOf r, hint = [], detailedHint = []\<rparr>) 
       \<lparr>currentProblem = \<lparr>answer = numberOf 7, hint = [], detailedHint = []\<rparr>,
         userAnswer = ''7'', showFeedback = True, isCorrect = True, showHints = False\<rparr> [AnswerChange ''9'', Check, ToggleHints :: int event] = 
       \<lparr>currentProblem = \<lparr>answer = numberOf 7, hint = [], detailedHint = []\<rparr>,
         userAnswer = ''7'', showFeedback = True, isCorrect = True, showHints = True\<rparr>
   \<and> checkDisabled (run (\<lambda>level r. \<lparr>answer = numberOf r, hint = [], detailedHint = []\<rparr>) 
       \<lparr>currentProblem = \<lparr>answer = numberOf 7, hint = [], detailedHint = []\<rparr>,
         userAnswer = ''7'', showFeedback = True, isCorrect = True, showHints = False\<rparr> [AnswerChange ''9'', Check, ToggleHints :: int event])
   \<and> phaseOf (snd (checkAnswer 
       \<lparr>currentProblem = \<lparr>answer = numberOf 7, hint = [], detailedHint = []\<rparr>,
         userAnswer = ''4'', showFeedback = False, isCorrect = False, showHints = False\<rparr>)) = Incorrect
   \<and> \<not> checkDisabled (snd (checkAnswer 
       \<lparr>currentProblem = \<lparr>answer = numberOf 7, hint = [], detailedHint = []\<rparr>,
         userAnswer = ''4'', showFeedback = False, isCorrect = False, showHints = False\<rparr>))
   \<and> step (\<lambda>level r. \<lparr>answer = numberOf r, hint = [], detailedHint = []\<rparr>) (step (\<lambda>level r. \<lparr>answer = numberOf r, hint = [], detailedHint = []\<rparr>) (snd (checkAnswer 
       \<lparr>currentProblem = \<lparr>answer = numberOf 7, hint = [], detailedHint = []\<rparr>,
         userAnswer = ''4'', showFeedback = False, isCorrect = False, showHints = False\<rparr>)) (AnswerChange ''9'')) (Check :: int event) = 
       \<lparr>currentProblem = \<lparr>answer = numberOf 7, hint = [], detailedHint = []\<rparr>,
         userAnswer = ''9'', showFeedback = True, isCorrect = False, showHints = False\<rparr>
   \<and> str (intOf (answer (currentProblem 
       \<lparr>currentProblem = \<lparr>answer = numberOf 7, hint = [], detailedHint = []\<rparr>,
         userAnswer = ''4'', showFeedback = False, isCorrect = False, showHints = False\<rparr>))) = ''7''
   \<and> step (\<lambda>level r. \<lparr>answer = numberOf r, hint = [], detailedHint = []\<rparr>) (step (\<lambda>level r. \<lparr>answer = numberOf r, hint = [], detailedHint = []\<rparr>) (snd (checkAnswer 
       \<lparr>currentProblem = \<lparr>answer = numberOf 7, hint = [], detailedHint = []\<rparr>,
         userAnswer = ''4'', showFeedback = False, isCorrect = False, showHints = False\<rparr>)) (AnswerChange ''7'')) (Check :: int event) = 
       \<lparr>currentProblem = \<lparr>answer = numberOf 7, hint = [], detailedHint = []\<rparr>,
         userAnswer = ''7'', showFeedback = True, isCorrect = True, showHints = False\<rparr>"
proof -
  have p4: "parseInt ''4'' = Finite 4" by (simp add: parseInt_eval toNumber_below)
  have p9: "parseInt ''9'' = Finite 9" by (simp add: parseInt_eval toNumber_below)
  have s7: "str 7 = ''7''" by (simp add: str_def digits.simps digitChar_simps)
  have c: "checkAnswer 
      \<lparr>currentProblem = \<lparr>answer = numberOf 7, hint = [], detailedHint = []\<rparr>,
        userAnswer = ''4'', showFeedback = False, isCorrect = False, showHints = False\<rparr> = (notQuiteRightToast, 
      \<lparr>currentProblem = \<lparr>answer = numberOf 7, hint = [], detailedHint = []\<rparr>,
        userAnswer = ''4'', showFeedback = True, isCorrect = False, showHints = False\<rparr>)"
    by (simp add: checkAnswer_parsed p4 intOf_7)
  have c9: "checkAnswer 
      \<lparr>currentProblem = \<lparr>answer = numberOf 7, hint = [], detailedHint = []\<rparr>,
        userAnswer = ''9'', showFeedback = True, isCorrect = False, showHints = False\<rparr> = (notQuiteRightToast, 
      \<lparr>currentProblem = \<lparr>answer = numberOf 7, hint = [], detailedHint = []\<rparr>,
        userAnswer = ''9'', showFeedback = True, isCorrect = False, showHints = False\<rparr>)"
    by (simp add: checkAnswer_parsed p9 intOf_7)
  have r: "run (\<lambda>level r. \<lparr>answer = numberOf r, hint = [], detailedHint = []\<rparr>) 
      \<lparr>currentProblem = \<lparr>answer = numberOf 7, hint = [], detailedHint = []\<rparr>,
        userAnswer = ''7'', showFeedback = True, isCorrect = True, showHints = False\<rparr> [AnswerChange ''9'', Check, ToggleHints :: int event] = 
      \<lparr>currentProblem = \<lparr>answer = numberOf 7, hint = [], detailedHint = []\<rparr>,
        userAnswer = ''7'', showFeedback = True, isCorrect = True, showHints = True\<rparr>"
    by (simp add: run_def inputDisabled_def checkDisabled_def toggleHints_def)
  show ?thesis
    using correct_locks_incorrect_retries [of "
        \<lparr>currentProblem = \<lparr>answer = numberOf 7, hint = [], detailedHint = []\<rparr>,
          userAnswer = ''7'', showFeedback = True, isCorrect = True, showHints = False\<rparr>" "[AnswerChange ''9'', Check, ToggleHints :: int event]" "(\<lambda>level r. \<lparr>answer = numberOf r, hint = [], detailedHint = []\<rparr>)" 0 "''9''"]
      correct_locks_incorrect_retries [of "
          \<lparr>currentProblem = \<lparr>answer = numberOf 7, hint = [], detailedHint = []\<rparr>,
            userAnswer = ''4'', showFeedback = False, isCorrect = False, showHints = False\<rparr>" "[] :: int event list" "(\<lambda>level r. \<lparr>answer = numberOf r, hint = [], detailedHint = []\<rparr>)" 0 "''9''"]
    by (simp add: c c9 r s7 intOf_7 phaseOf_def checkDisabled_def inputDisabled_def)
qed

text \<open>
  Claim C7. From any state, \<^verbatim>\<open>nextProblem\<close> makes the problem that the generator returns
  for level 1 the current one, empties the answer text, hides the feedback and
  collapses the hints; \<^verbatim>\<open>isCorrect\<close> is the only field it keeps. The state it returns
  is the \<open>Idle\<close> state of the state machine.
\<close>

theorem nextProblem_resets:
  "nextProblem g r s =
     \<lparr>currentProblem = g 1 r, userAnswer = [], showFeedback = False,
      isCorrect = isCorrect s, showHints = False\<rparr>
   \<and> phaseOf (nextProblem g r s) = Idle"
  by (simp add: nextProblem_def phaseOf_def)

text \<open>
  Claim C10. The answer input and the Check button are disabled exactly when
  \<^verbatim>\<open>showFeedback\<close> and \<^verbatim>\<open>isCorrect\<close> both hold. \<^verbatim>\<open>nextProblem\<close> leaves \<^verbatim>\<open>isCorrect\<close> as it
  is. So when the state shows a correct answer, the \<open>Next\<close> event runs
  \<^verbatim>\<open>nextProblem\<close>, after which \<^verbatim>\<open>isCorrect\<close> still holds while \<^verbatim>\<open>showFeedback\<close> does not,
  and both controls are enabled.
\<close>

theorem lock_and_stale_isCorrect:
  "inputDisabled s = (showFeedback s \<and> isCorrect s)
   \<and> checkDisabled s = (showFeedback s \<and> isCorrect s)
   \<and> isCorrect (nextProblem g r s) = isCorrect s
   \<and> (showFeedback s \<and> isCorrect s \<longrightarrow>
        step g s (Next r) = nextProblem g r s
        \<and> isCorrect (nextProblem g r s)
        \<and> \<not> showFeedback (nextProblem g r s)
        \<and> \<not> inputDisabled (nextProblem g r s)
        \<and> \<not> checkDisabled (nextProblem g r s))"
  by (simp add: inputDisabled_def checkDisabled_def nextProblem_def)

text \<open>
  An instance of the theorem for C10: advancing from a correctly answered problem keeps
  \<^verbatim>\<open>isCorrect\<close> true, hides the feedback and enables the input.
\<close>

theorem lock_and_stale_isCorrect_witness:
  "showFeedback 
      \<lparr>currentProblem = \<lparr>answer = numberOf 7, hint = [], detailedHint = []\<rparr>,
        userAnswer = ''7'', showFeedback = True, isCorrect = True, showHints = True\<rparr>
   \<and> isCorrect 
       \<lparr>currentProblem = \<lparr>answer = numberOf 7, hint = [], detailedHint = []\<rparr>,
         userAnswer = ''7'', showFeedback = True, isCorrect = True, showHints = True\<rparr>
   \<and> step (\<lambda>level r. \<lparr>answer = numberOf (r + level), hint = [], detailedHint = []\<rparr>) 
       \<lparr>currentProblem = \<lparr>answer = numberOf 7, hint = [], detailedHint = []\<rparr>,
         userAnswer = ''7'', showFeedback = True, isCorrect = True, showHints = True\<rparr> (Next 4) = 
       \<lparr>currentProblem = \<lparr>answer = numberOf 5, hint = [], detailedHint = []\<rparr>,
         userAnswer = [], showFeedback = False, isCorrect = True, showHints = False\<rparr>
   \<and> \<not> inputDisabled (nextProblem (\<lambda>level r. \<lparr>answer = numberOf (r + level), hint = [], detailedHint = []\<rparr>) 4 
       \<lparr>currentProblem = \<lparr>answer = numberOf 7, hint = [], detailedHint = []\<rparr>,
         userAnswer = ''7'', showFeedback = True, isCorrect = True, showHints = True\<rparr>)"
  using lock_and_stale_isCorrect [of "
      \<lparr>currentProblem = \<lparr>answer = numberOf 7, hint = [], detailedHint = []\<rparr>,
        userAnswer = ''7'', showFeedback = True, isCorrect = True, showHints = True\<rparr>" "(\<lambda>level r. \<lparr>answer = numberOf (r + level), hint = [], detailedHint = []\<rparr>)" 4]
  by (simp add: nextProblem_def)

end
